theory Spec2Isabelle
  imports Main
begin

section \<open>The preprocessor state\<close>

text \<open>
  The two sources of SolarMQTT are C headers: \<^verbatim>\<open>shared/mosquitto/config.h\<close> and
  \<^verbatim>\<open>PluginSolarMQTT.h\<close>. A header is a program of the C preprocessor: it reads the
  macro table of the translation unit, changes it, and passes declarations on to the
  compiler. Each header is embedded as a function on that state, one step for each
  directive, in the order of the source.

  A macro is object-like (\<^verbatim>\<open>#define N tokens\<close>) or function-like
  (\<^verbatim>\<open>#define N(params) tokens\<close>); its replacement list is kept as the list of its
  preprocessing tokens, comments removed.
\<close>

type_synonym token = string

datatype macro =
    Object_like "token list"
  | Function_like "string list" "token list"

datatype ctype = C_int | C_named string | C_pointer ctype

text \<open>
  What a header hands to the compiler besides macros. The contents of system and host
  headers (\<^verbatim>\<open><basetsd.h>\<close>, \<^verbatim>\<open><CoronaLua.h>\<close>, \<^verbatim>\<open><CoronaMacros.h>\<close>) are not part of the
  repository: an \<^verbatim>\<open>#include\<close> of one is recorded, not expanded.
\<close>

datatype item =
    System_include string
  | Typedef ctype string
  | Function_decl "token list" ctype string "(ctype \<times> string) list"

record pp_state =
  macros :: "string \<rightharpoonup> macro"
  emitted :: "item list"

datatype pp_error = Invalid_if_expression

definition defined :: "string \<Rightarrow> pp_state \<Rightarrow> bool" where
  "defined n s = (macros s n \<noteq> None)"

text \<open>
  \<^verbatim>\<open>#define\<close>: the name is bound to the new macro. A name already bound to something
  else is rebound (compilers warn and go on).
\<close>

definition pp_define :: "string \<Rightarrow> macro \<Rightarrow> pp_state \<Rightarrow> pp_state" where
  "pp_define n m s = s\<lparr>macros := (macros s)(n \<mapsto> m)\<rparr>"

text \<open>\<^verbatim>\<open>#ifndef N\<close> / \<^verbatim>\<open>#define N ...\<close> / \<^verbatim>\<open>#endif\<close>.\<close>

definition pp_ifndef :: "string \<Rightarrow> macro \<Rightarrow> pp_state \<Rightarrow> pp_state" where
  "pp_ifndef n m s = (if defined n s then s else pp_define n m s)"

definition emit :: "item \<Rightarrow> pp_state \<Rightarrow> pp_state" where
  "emit i s = s\<lparr>emitted := emitted s @ [i]\<rparr>"

subsection \<open>Macro replacement\<close>

text \<open>
  One replacement step. An object-like macro is replaced by its replacement list; in the
  replacement list of a function-like macro every parameter is replaced by the tokens of
  the matching argument, all at once. A call with the wrong number of arguments, or of a
  name that is no such macro, has no expansion.
\<close>

definition expand_object :: "pp_state \<Rightarrow> string \<Rightarrow> token list option" where
  "expand_object s n =
     (case macros s n of
        Some (Object_like r) \<Rightarrow> Some r
      | _ \<Rightarrow> None)"

definition substitute :: "string list \<Rightarrow> token list list \<Rightarrow> token \<Rightarrow> token list" where
  "substitute ps args t = (case map_of (zip ps args) t of Some a \<Rightarrow> a | None \<Rightarrow> [t])"

definition expand_call :: "pp_state \<Rightarrow> string \<Rightarrow> token list list \<Rightarrow> token list option" where
  "expand_call s n args =
     (case macros s n of
        Some (Function_like ps r) \<Rightarrow>
          if length ps = length args then Some (concat (map (substitute ps args) r))
          else None
      | _ \<Rightarrow> None)"

subsection \<open>Integer constants and \<^verbatim>\<open>#if\<close>\<close>

text \<open>The value of a decimal digit, from its character code (48 is the code of \<^verbatim>\<open>0\<close>).\<close>

definition digit_value :: "char \<Rightarrow> int option" where
  "digit_value c =
     (let code = (of_char c :: int)
      in if 48 \<le> code \<and> code \<le> 57 then Some (code - 48) else None)"

fun digits_value :: "int \<Rightarrow> string \<Rightarrow> int option" where
  "digits_value acc [] = Some acc"
| "digits_value acc (c # cs) =
     (case digit_value c of
        None \<Rightarrow> None
      | Some d \<Rightarrow> digits_value (10 * acc + d) cs)"

text \<open>
  The value of a token that is a decimal constant of C, or the constant \<^verbatim>\<open>0\<close>. A
  digit string with a leading zero is octal in C and a suffix changes the type; neither
  is read here.
\<close>

definition integer_constant :: "token \<Rightarrow> int option" where
  "integer_constant t =
     (case t of
        [] \<Rightarrow> None
      | c # cs \<Rightarrow>
          if c = CHR ''0'' then (if cs = [] then Some 0 else None)
          else digits_value 0 t)"

text \<open>
  The value of an identifier in the controlling expression of \<^verbatim>\<open>#if\<close>. A name that is
  not a macro, and the name of a function-like macro that is not called, are left by
  macro replacement and count as 0. An object-like macro is replaced; the model evaluates
  a replacement list that is one integer constant within \<^verbatim>\<open>intmax_t\<close>. Any other
  replacement list is reported as an error: the empty list is one for every compiler;
  another token, or a longer expression, is not evaluated by the model.
\<close>

definition if_identifier :: "pp_state \<Rightarrow> string \<Rightarrow> pp_error + int" where
  "if_identifier s n =
     (case macros s n of
        None \<Rightarrow> Inr 0
      | Some (Function_like ps r) \<Rightarrow> Inr 0
      | Some (Object_like r) \<Rightarrow>
          (case r of
             [t] \<Rightarrow>
               (case integer_constant t of
                  Some v \<Rightarrow> if v < 2 ^ 63 then Inr v else Inl Invalid_if_expression
                | None \<Rightarrow> Inl Invalid_if_expression)
           | _ \<Rightarrow> Inl Invalid_if_expression))"

section \<open>config.h\<close>

text \<open>Lines 13 to 17, "Platform options".\<close>

definition platform_options :: "pp_state \<Rightarrow> pp_state" where
  "platform_options s =
     (if defined ''__APPLE__'' s then pp_define ''__DARWIN_C_SOURCE'' (Object_like []) s
      else if defined ''__FreeBSD__'' s \<or> defined ''__NetBSD__'' s
        then pp_define ''HAVE_NETINET_IN_H'' (Object_like []) s
      else s)"

text \<open>
  Lines 23 to 32, "Feature flags". Lines 24 to 29 are comments and define nothing.
\<close>

definition feature_flags :: "pp_state \<Rightarrow> pp_state" where
  "feature_flags s =
     (let s = pp_define ''WITH_TLS'' (Object_like []) s;
          s = pp_define ''WITH_THREADING'' (Object_like []) s
      in s)"

text \<open>Lines 39 to 49, the body of the block for old Microsoft compilers.\<close>

definition msvc_defines :: "pp_state \<Rightarrow> pp_state" where
  "msvc_defines s =
     (let s = pp_define ''snprintf'' (Object_like [''sprintf_s'']) s;
          s = pp_define ''EPROTO'' (Object_like [''ECONNABORTED'']) s;
          s = pp_ifndef ''ECONNABORTED'' (Object_like [''WSAECONNABORTED'']) s;
          s = pp_ifndef ''ENOTCONN'' (Object_like [''WSAENOTCONN'']) s;
          s = pp_ifndef ''ECONNREFUSED'' (Object_like [''WSAECONNREFUSED'']) s
      in s)"

text \<open>
  Lines 38 and 50: \<^verbatim>\<open>#if defined(_MSC_VER) && _MSC_VER < 1900\<close>. The whole controlling
  expression is replaced and parsed before it is evaluated, so a replacement of
  \<^verbatim>\<open>_MSC_VER\<close> that has no value is an error.
\<close>

definition msvc_compatibility :: "pp_state \<Rightarrow> pp_error + pp_state" where
  "msvc_compatibility s =
     (case if_identifier s ''_MSC_VER'' of
        Inl e \<Rightarrow> Inl e
      | Inr v \<Rightarrow>
          if defined ''_MSC_VER'' s \<and> v < 1900 then Inr (msvc_defines s)
          else Inr s)"

text \<open>Lines 52 to 61: \<^verbatim>\<open>#ifdef WIN32\<close>.\<close>

definition win32_compatibility :: "pp_state \<Rightarrow> pp_state" where
  "win32_compatibility s =
     (if defined ''WIN32'' s then
        (let s = pp_define ''strcasecmp'' (Object_like [''_stricmp'']) s;
             s = pp_define ''strncasecmp'' (Object_like [''_strnicmp'']) s;
             s = pp_define ''strtok_r'' (Object_like [''strtok_s'']) s;
             s = pp_define ''strerror_r''
                   (Function_like [''e'', ''b'', ''l'']
                      [''strerror_s'', ''('', ''b'', '','', ''l'', '','', ''e'', '')'']) s
         in if defined ''_MSC_VER'' s then
              (let s = emit (System_include ''basetsd.h'') s;
                   s = emit (Typedef (C_named ''SSIZE_T'') ''ssize_t'') s
               in s)
            else s)
      else s)"

text \<open>Lines 38 to 61, "Compatibility defines".\<close>

definition compatibility_defines :: "pp_state \<Rightarrow> pp_error + pp_state" where
  "compatibility_defines s =
     (case msvc_compatibility s of
        Inl e \<Rightarrow> Inl e
      | Inr s \<Rightarrow> Inr (win32_compatibility s))"

text \<open>Lines 67 and 68, "uthash memory allocation overrides".\<close>

definition uthash_overrides :: "pp_state \<Rightarrow> pp_state" where
  "uthash_overrides s =
     (let s = pp_define ''uthash_malloc''
                (Function_like [''sz''] [''mosquitto_malloc'', ''('', ''sz'', '')'']) s;
          s = pp_define ''uthash_free''
                (Function_like [''ptr'', ''sz''] [''mosquitto_free'', ''('', ''ptr'', '')'']) s
      in s)"

text \<open>Lines 74 to 86, "Misc".\<close>

definition misc_defines :: "pp_state \<Rightarrow> pp_state" where
  "misc_defines s =
     (let s = pp_define ''UNUSED''
                (Function_like [''A''] [''('', ''void'', '')'', ''('', ''A'', '')'']) s;
          s = (if \<not> defined ''ANDROID'' s \<and> \<not> defined ''WIN32'' s
               then pp_define ''HAVE_PTHREAD_CANCEL'' (Object_like []) s else s);
          s = pp_define ''WS_IS_LWS'' (Object_like [''1'']) s;
          s = pp_define ''WS_IS_BUILTIN'' (Object_like [''2'']) s;
          s = pp_define ''BROKER_EXPORT'' (Object_like []) s;
          s = pp_define ''TOPIC_HIERARCHY_LIMIT'' (Object_like [''200'']) s
      in s)"

text \<open>
  The whole header, inside its include guard (lines 6, 7 and 88). The result is the
  state after the header, or the error that stops the translation.
\<close>

definition config_h :: "pp_state \<Rightarrow> pp_error + pp_state" where
  "config_h s =
     (if defined ''CONFIG_H'' s then Inr s
      else
        (let s = pp_define ''CONFIG_H'' (Object_like []) s;
             s = platform_options s;
             s = feature_flags s
         in case compatibility_defines s of
              Inl e \<Rightarrow> Inl e
            | Inr s \<Rightarrow> Inr (misc_defines (uthash_overrides s))))"

section \<open>PluginSolarMQTT.h\<close>

text \<open>
  Lines 8 to 17. Line 15 is
  \<^verbatim>\<open>CORONA_EXPORT int luaopen_plugin_solarmqtt( lua_State *L );\<close>
  where \<^verbatim>\<open>CORONA_EXPORT\<close> is a macro of the host's \<^verbatim>\<open><CoronaMacros.h>\<close>; it is kept
  as the token it is.
\<close>

definition plugin_h :: "pp_state \<Rightarrow> pp_state" where
  "plugin_h s =
     (if defined ''_PluginSolarMQTT_H__'' s then s
      else
        (let s = pp_define ''_PluginSolarMQTT_H__'' (Object_like []) s;
             s = emit (System_include ''CoronaLua.h'') s;
             s = emit (System_include ''CoronaMacros.h'') s;
             s = emit (Function_decl [''CORONA_EXPORT''] C_int ''luaopen_plugin_solarmqtt''
                        [(C_pointer (C_named ''lua_State''), ''L'')]) s
         in s))"

text \<open>The function declarations among the items a header passes on.\<close>

fun is_function_decl :: "item \<Rightarrow> bool" where
  "is_function_decl (Function_decl q r n ps) = True"
| "is_function_decl (System_include h) = False"
| "is_function_decl (Typedef ty n) = False"

definition function_decls :: "item list \<Rightarrow> item list" where
  "function_decls items = filter is_function_decl items"

text \<open>
  The comment on line 14 ties the declaration to \<^verbatim>\<open>require "plugin.solarmqtt"\<close>. The rule
  behind it is the host's, Lua 5.1: the loader of a C module is the function named
  \<^verbatim>\<open>luaopen_\<close> followed by the module name, read after its first hyphen if it has one,
  with every dot replaced by an underscore.
\<close>

definition luaopen_name :: "string \<Rightarrow> string" where
  "luaopen_name modname =
     (let m = (if CHR ''-'' \<in> set modname
               then tl (dropWhile (\<lambda>c. c \<noteq> CHR ''-'') modname) else modname)
      in ''luaopen_'' @ map (\<lambda>c. if c = CHR ''.'' then CHR ''_'' else c) m)"

section \<open>The topic hierarchy limit\<close>

text \<open>
  The value a use of an object-like macro has in C code, when its replacement list is one
  integer constant.
\<close>

definition macro_constant :: "pp_state \<Rightarrow> string \<Rightarrow> int option" where
  "macro_constant s n =
     (case expand_object s n of
        Some [t] \<Rightarrow> integer_constant t
      | _ \<Rightarrow> None)"

text \<open>
  Modelled from the spec: the "slash-delimited segments" of a topic, which no source file
  computes. They are the pieces between the slashes, in order; a topic with \<open>k\<close> slashes has
  \<open>k + 1\<close> of them, empty ones included.
\<close>

fun split_topic :: "string \<Rightarrow> string \<Rightarrow> string list" where
  "split_topic cur [] = [rev cur]"
| "split_topic cur (c # cs) =
     (if c = CHR ''/'' then rev cur # split_topic [] cs else split_topic (c # cur) cs)"

definition segments :: "string \<Rightarrow> string list" where
  "segments topic = split_topic [] topic"

datatype topic_error = InvalidTopic

text \<open>
  Modelled from the spec: the check that uses \<^verbatim>\<open>TOPIC_HIERARCHY_LIMIT\<close>. config.h only
  defines the macro; the function that compares a topic with it is in neither source
  file. The specification says of it: "topic strings are rejected if their
  slash-delimited segment count exceeds 200", the rejection being \<^verbatim>\<open>InvalidTopic\<close>. The
  limit is the parameter \<open>limit\<close>.
\<close>

definition topic_check :: "int \<Rightarrow> string \<Rightarrow> topic_error + unit" where
  "topic_check limit topic =
     (if limit < int (length (segments topic)) then Inl InvalidTopic else Inr ())"

section \<open>How each part of config.h changes the macro table\<close>

subsection \<open>The directives\<close>

lemma macros_pp_define [simp]: "macros (pp_define n m s) = (macros s)(n \<mapsto> m)"
  by (simp add: pp_define_def)

lemma emitted_pp_define [simp]: "emitted (pp_define n m s) = emitted s"
  by (simp add: pp_define_def)

lemma macros_emit [simp]: "macros (emit i s) = macros s"
  by (simp add: emit_def)

lemma emitted_emit [simp]: "emitted (emit i s) = emitted s @ [i]"
  by (simp add: emit_def)

lemma defined_pp_define [simp]: "defined k (pp_define n m s) = (k = n \<or> defined k s)"
  by (simp add: defined_def)

lemma defined_emit [simp]: "defined k (emit i s) = defined k s"
  by (simp add: defined_def)

lemma macros_pp_ifndef:
  "macros (pp_ifndef n m s) = (if defined n s then macros s else (macros s)(n \<mapsto> m))"
  by (simp add: pp_ifndef_def)

lemma emitted_pp_ifndef [simp]: "emitted (pp_ifndef n m s) = emitted s"
  by (simp add: pp_ifndef_def)

lemma defined_pp_ifndef [simp]: "defined k (pp_ifndef n m s) = (k = n \<or> defined k s)"
  by (auto simp add: pp_ifndef_def)

text \<open>The value of an identifier in \<^verbatim>\<open>#if\<close> depends on the binding of that name only.\<close>

lemma if_identifier_cong: "macros s n = macros t n \<Longrightarrow> if_identifier s n = if_identifier t n"
  by (simp add: if_identifier_def)

subsection \<open>The macro table after each part\<close>

lemma macros_platform_options:
  "macros (platform_options s) =
     (if defined ''__APPLE__'' s then (macros s)(''__DARWIN_C_SOURCE'' \<mapsto> Object_like [])
      else if defined ''__FreeBSD__'' s \<or> defined ''__NetBSD__'' s
        then (macros s)(''HAVE_NETINET_IN_H'' \<mapsto> Object_like [])
      else macros s)"
  by (simp add: platform_options_def)

lemma macros_feature_flags:
  "macros (feature_flags s) =
     (macros s)(''WITH_TLS'' \<mapsto> Object_like [], ''WITH_THREADING'' \<mapsto> Object_like [])"
  by (simp add: feature_flags_def)

lemma macros_msvc_defines:
  "macros (msvc_defines s) n =
     (if n = ''snprintf'' then Some (Object_like [''sprintf_s''])
      else if n = ''EPROTO'' then Some (Object_like [''ECONNABORTED''])
      else if n = ''ECONNABORTED'' \<and> \<not> defined n s then Some (Object_like [''WSAECONNABORTED''])
      else if n = ''ENOTCONN'' \<and> \<not> defined n s then Some (Object_like [''WSAENOTCONN''])
      else if n = ''ECONNREFUSED'' \<and> \<not> defined n s then Some (Object_like [''WSAECONNREFUSED''])
      else macros s n)"
  by (simp add: msvc_defines_def macros_pp_ifndef)

lemma macros_win32_compatibility:
  "macros (win32_compatibility s) n =
     (if \<not> defined ''WIN32'' s then macros s n
      else if n = ''strerror_r'' then
        Some (Function_like [''e'', ''b'', ''l'']
                [''strerror_s'', ''('', ''b'', '','', ''l'', '','', ''e'', '')''])
      else if n = ''strtok_r'' then Some (Object_like [''strtok_s''])
      else if n = ''strncasecmp'' then Some (Object_like [''_strnicmp''])
      else if n = ''strcasecmp'' then Some (Object_like [''_stricmp''])
      else macros s n)"
  by (simp add: win32_compatibility_def Let_def)

lemma macros_uthash_overrides:
  "macros (uthash_overrides s) =
     (macros s)
       (''uthash_malloc'' \<mapsto> Function_like [''sz''] [''mosquitto_malloc'', ''('', ''sz'', '')''],
        ''uthash_free'' \<mapsto> Function_like [''ptr'', ''sz''] [''mosquitto_free'', ''('', ''ptr'', '')''])"
  by (simp add: uthash_overrides_def)

lemma macros_misc_defines:
  "macros (misc_defines s) n =
     (if n = ''TOPIC_HIERARCHY_LIMIT'' then Some (Object_like [''200''])
      else if n = ''BROKER_EXPORT'' then Some (Object_like [])
      else if n = ''WS_IS_BUILTIN'' then Some (Object_like [''2''])
      else if n = ''WS_IS_LWS'' then Some (Object_like [''1''])
      else if n = ''HAVE_PTHREAD_CANCEL'' \<and> \<not> defined ''ANDROID'' s \<and> \<not> defined ''WIN32'' s
        then Some (Object_like [])
      else if n = ''UNUSED'' then
        Some (Function_like [''A''] [''('', ''void'', '')'', ''('', ''A'', '')''])
      else macros s n)"
  by (simp add: misc_defines_def Let_def)

subsection \<open>A first inclusion\<close>

text \<open>
  When the guard is not defined and line 38 has the value \<open>v\<close>, the header is the
  composition of its parts; the parts before line 38 do not touch \<^verbatim>\<open>_MSC_VER\<close>.
\<close>

lemma config_h_first:
  assumes "\<not> defined ''CONFIG_H'' s" and "if_identifier s ''_MSC_VER'' = Inr v"
  shows "config_h s =
    Inr (misc_defines (uthash_overrides (win32_compatibility
      (if defined ''_MSC_VER'' s \<and> v < 1900
       then msvc_defines (feature_flags (platform_options
              (pp_define ''CONFIG_H'' (Object_like []) s)))
       else feature_flags (platform_options
              (pp_define ''CONFIG_H'' (Object_like []) s))))))"
proof -
  let ?t = "feature_flags (platform_options (pp_define ''CONFIG_H'' (Object_like []) s))"
  have m: "macros ?t ''_MSC_VER'' = macros s ''_MSC_VER''"
    by (simp add: macros_feature_flags macros_platform_options)
  have i: "if_identifier ?t ''_MSC_VER'' = Inr v"
    using if_identifier_cong [OF m] assms(2) by simp
  have d: "defined ''_MSC_VER'' ?t = defined ''_MSC_VER'' s"
    using m by (simp add: defined_def)
  show ?thesis
    using assms(1) i d
    by (simp add: config_h_def compatibility_defines_def msvc_compatibility_def Let_def)
qed

subsection \<open>Names a part leaves alone\<close>

lemma frame_platform_options:
  "n \<noteq> ''__DARWIN_C_SOURCE'' \<Longrightarrow> n \<noteq> ''HAVE_NETINET_IN_H'' \<Longrightarrow>
     macros (platform_options s) n = macros s n"
  by (simp add: macros_platform_options)

lemma frame_feature_flags:
  "n \<noteq> ''WITH_TLS'' \<Longrightarrow> n \<noteq> ''WITH_THREADING'' \<Longrightarrow> macros (feature_flags s) n = macros s n"
  by (simp add: macros_feature_flags)

lemma frame_msvc_defines:
  "n \<noteq> ''snprintf'' \<Longrightarrow> n \<noteq> ''EPROTO'' \<Longrightarrow> n \<noteq> ''ECONNABORTED'' \<Longrightarrow> n \<noteq> ''ENOTCONN'' \<Longrightarrow>
     n \<noteq> ''ECONNREFUSED'' \<Longrightarrow> macros (msvc_defines s) n = macros s n"
  by (simp add: macros_msvc_defines)

lemma frame_win32_compatibility:
  "n \<noteq> ''strcasecmp'' \<Longrightarrow> n \<noteq> ''strncasecmp'' \<Longrightarrow> n \<noteq> ''strtok_r'' \<Longrightarrow> n \<noteq> ''strerror_r'' \<Longrightarrow>
     macros (win32_compatibility s) n = macros s n"
  by (simp add: macros_win32_compatibility)

lemma frame_uthash_overrides:
  "n \<noteq> ''uthash_malloc'' \<Longrightarrow> n \<noteq> ''uthash_free'' \<Longrightarrow> macros (uthash_overrides s) n = macros s n"
  by (simp add: macros_uthash_overrides)

lemma frame_misc_defines:
  "n \<noteq> ''UNUSED'' \<Longrightarrow> n \<noteq> ''HAVE_PTHREAD_CANCEL'' \<Longrightarrow> n \<noteq> ''WS_IS_LWS'' \<Longrightarrow>
     n \<noteq> ''WS_IS_BUILTIN'' \<Longrightarrow> n \<noteq> ''BROKER_EXPORT'' \<Longrightarrow> n \<noteq> ''TOPIC_HIERARCHY_LIMIT'' \<Longrightarrow>
     macros (misc_defines s) n = macros s n"
  by (simp add: macros_misc_defines)

lemmas frames = frame_platform_options frame_feature_flags frame_msvc_defines
  frame_win32_compatibility frame_uthash_overrides frame_misc_defines

subsection \<open>Errors and the include guard\<close>

text \<open>A first inclusion stops with the error of line 38, if there is one.\<close>

lemma config_h_error:
  assumes "\<not> defined ''CONFIG_H'' s" and "if_identifier s ''_MSC_VER'' = Inl e"
  shows "config_h s = Inl e"
proof -
  let ?t = "feature_flags (platform_options (pp_define ''CONFIG_H'' (Object_like []) s))"
  have m: "macros ?t ''_MSC_VER'' = macros s ''_MSC_VER''"
    by (simp add: frames)
  have "if_identifier ?t ''_MSC_VER'' = Inl e"
    using if_identifier_cong [OF m] assms(2) by simp
  then show ?thesis
    using assms(1)
    by (simp add: config_h_def compatibility_defines_def msvc_compatibility_def Let_def)
qed

lemma config_h_error_example:
  "config_h \<lparr>macros = [''_MSC_VER'' \<mapsto> Object_like []], emitted = []\<rparr> =
     Inl Invalid_if_expression"
  by (rule config_h_error) (simp_all add: defined_def if_identifier_def)

lemma config_h_again: "defined ''CONFIG_H'' s \<Longrightarrow> config_h s = Inr s"
  by (simp add: config_h_def)

lemma config_h_defines_guard:
  assumes "config_h s = Inr s'"
  shows "defined ''CONFIG_H'' s'"
proof (cases "defined ''CONFIG_H'' s")
  case True
  with assms show ?thesis by (simp add: config_h_again)
next
  case False
  show ?thesis
  proof (cases "if_identifier s ''_MSC_VER''")
    case (Inl e)
    with False assms show ?thesis by (simp add: config_h_error)
  next
    case (Inr v)
    from assms show ?thesis
      unfolding config_h_first [OF False Inr]
      by (auto simp add: defined_def frames)
  qed
qed

section \<open>The claims\<close>

text \<open>
  In the theorems below \<open>s\<close> is the state in which the header is included. Two
  conditions recur: the include guard is not yet defined (the inclusion is the first one),
  and line 38 can be evaluated, \<open>v\<close> being the value \<^verbatim>\<open>_MSC_VER\<close> has there (0 when the
  compiler does not define it).
\<close>

text \<open>
  C1: a first inclusion of config.h succeeds and defines \<^verbatim>\<open>WITH_TLS\<close> and
  \<^verbatim>\<open>WITH_THREADING\<close>, whatever the platform macros are; \<^verbatim>\<open>WITH_TLS_PSK\<close>, \<^verbatim>\<open>WITH_SRV\<close>,
  \<^verbatim>\<open>WITH_BROKER\<close>, \<^verbatim>\<open>WITH_WEBSOCKETS\<close>, \<^verbatim>\<open>WITH_SOCKS\<close> and \<^verbatim>\<open>WITH_ADNS\<close> are left as
  they were, so the header defines none of them.
\<close>

theorem feature_profile_tls_and_threading:
  assumes "\<not> defined ''CONFIG_H'' s" and "if_identifier s ''_MSC_VER'' = Inr v"
  shows "\<exists>s'. config_h s = Inr s' \<and>
     macros s' ''WITH_TLS'' = Some (Object_like []) \<and>
     macros s' ''WITH_THREADING'' = Some (Object_like []) \<and>
     (\<forall>f \<in> set [''WITH_TLS_PSK'', ''WITH_SRV'', ''WITH_BROKER'', ''WITH_WEBSOCKETS'',
                   ''WITH_SOCKS'', ''WITH_ADNS'']. macros s' f = macros s f)"
  unfolding config_h_first [OF assms]
  by (simp add: frames macros_feature_flags)

theorem feature_profile_witness:
  "\<not> defined ''CONFIG_H'' \<lparr>macros = Map.empty, emitted = []\<rparr> \<and>
   if_identifier \<lparr>macros = Map.empty, emitted = []\<rparr> ''_MSC_VER'' = Inr 0 \<and>
   (\<exists>s'. config_h \<lparr>macros = Map.empty, emitted = []\<rparr> = Inr s' \<and>
      defined ''WITH_TLS'' s' \<and> defined ''WITH_THREADING'' s' \<and>
      \<not> defined ''WITH_TLS_PSK'' s' \<and> \<not> defined ''WITH_SRV'' s' \<and>
      \<not> defined ''WITH_BROKER'' s' \<and> \<not> defined ''WITH_WEBSOCKETS'' s' \<and>
      \<not> defined ''WITH_SOCKS'' s' \<and> \<not> defined ''WITH_ADNS'' s')"
proof -
  let ?s = "\<lparr>macros = Map.empty, emitted = []\<rparr>"
  have a: "\<not> defined ''CONFIG_H'' ?s" by (simp add: defined_def)
  have b: "if_identifier ?s ''_MSC_VER'' = Inr 0" by (simp add: if_identifier_def)
  from feature_profile_tls_and_threading [OF a b] obtain s' where
    "config_h ?s = Inr s'" "macros s' ''WITH_TLS'' = Some (Object_like [])"
    "macros s' ''WITH_THREADING'' = Some (Object_like [])"
    "\<forall>f \<in> set [''WITH_TLS_PSK'', ''WITH_SRV'', ''WITH_BROKER'', ''WITH_WEBSOCKETS'',
                   ''WITH_SOCKS'', ''WITH_ADNS'']. macros s' f = macros ?s f"
    by blast
  then have "config_h ?s = Inr s' \<and>
      defined ''WITH_TLS'' s' \<and> defined ''WITH_THREADING'' s' \<and>
      \<not> defined ''WITH_TLS_PSK'' s' \<and> \<not> defined ''WITH_SRV'' s' \<and>
      \<not> defined ''WITH_BROKER'' s' \<and> \<not> defined ''WITH_WEBSOCKETS'' s' \<and>
      \<not> defined ''WITH_SOCKS'' s' \<and> \<not> defined ''WITH_ADNS'' s'"
    by (simp add: defined_def)
  with a b show ?thesis by blast
qed


text \<open>
  C2: after config.h the macro \<^verbatim>\<open>TOPIC_HIERARCHY_LIMIT\<close> is replaced by the one token
  \<^verbatim>\<open>200\<close>, an integer constant of value 200, and the topic check run with that limit rejects
  every topic of more than 200 slash-delimited segments.
\<close>

theorem topic_hierarchy_limit_200:
  assumes "\<not> defined ''CONFIG_H'' s" and "if_identifier s ''_MSC_VER'' = Inr v"
  shows "\<exists>s' limit. config_h s = Inr s' \<and>
     expand_object s' ''TOPIC_HIERARCHY_LIMIT'' = Some [''200''] \<and>
     macro_constant s' ''TOPIC_HIERARCHY_LIMIT'' = Some limit \<and> limit = 200 \<and>
     (\<forall>topic. 200 < length (segments topic) \<longrightarrow> topic_check limit topic = Inl InvalidTopic)"
  unfolding config_h_first [OF assms]
  by (simp add: macro_constant_def expand_object_def macros_misc_defines integer_constant_def
      digit_value_def topic_check_def)

theorem topic_hierarchy_limit_witness:
  "\<not> defined ''CONFIG_H'' \<lparr>macros = Map.empty, emitted = []\<rparr> \<and>
   if_identifier \<lparr>macros = Map.empty, emitted = []\<rparr> ''_MSC_VER'' = Inr 0 \<and>
   200 < length (segments (replicate 200 (CHR ''/''))) \<and>
   (\<exists>s'. config_h \<lparr>macros = Map.empty, emitted = []\<rparr> = Inr s' \<and>
      macro_constant s' ''TOPIC_HIERARCHY_LIMIT'' = Some 200) \<and>
   topic_check 200 (replicate 200 (CHR ''/'')) = Inl InvalidTopic"
proof -
  let ?s = "\<lparr>macros = Map.empty, emitted = []\<rparr>"
  have a: "\<not> defined ''CONFIG_H'' ?s" by (simp add: defined_def)
  have b: "if_identifier ?s ''_MSC_VER'' = Inr 0" by (simp add: if_identifier_def)
  have c: "200 < length (segments (replicate 200 (CHR ''/'')))" by code_simp
  from topic_hierarchy_limit_200 [OF a b] obtain s' where
    "config_h ?s = Inr s'" "macro_constant s' ''TOPIC_HIERARCHY_LIMIT'' = Some 200"
    "\<forall>topic. 200 < length (segments topic) \<longrightarrow> topic_check 200 topic = Inl InvalidTopic"
    by blast
  with a b c show ?thesis by blast
qed

text \<open>
  C3: a first inclusion of PluginSolarMQTT.h passes on two includes of host headers and
  one declaration. The header declares exactly one function: \<^verbatim>\<open>luaopen_plugin_solarmqtt\<close>,
  which takes a \<^verbatim>\<open>lua_State *\<close> and returns \<^verbatim>\<open>int\<close>. Its name is the loader name of the Lua
  module \<^verbatim>\<open>plugin.solarmqtt\<close>.
\<close>

theorem plugin_single_entry_point:
  assumes "\<not> defined ''_PluginSolarMQTT_H__'' s"
  shows "emitted (plugin_h s) =
       emitted s @
         [System_include ''CoronaLua.h'', System_include ''CoronaMacros.h'',
          Function_decl [''CORONA_EXPORT''] C_int ''luaopen_plugin_solarmqtt''
            [(C_pointer (C_named ''lua_State''), ''L'')]] \<and>
     function_decls (emitted (plugin_h s)) =
       function_decls (emitted s) @
         [Function_decl [''CORONA_EXPORT''] C_int ''luaopen_plugin_solarmqtt''
            [(C_pointer (C_named ''lua_State''), ''L'')]] \<and>
     luaopen_name ''plugin.solarmqtt'' = ''luaopen_plugin_solarmqtt''"
  using assms by (simp add: plugin_h_def function_decls_def luaopen_name_def)

theorem plugin_single_entry_point_witness:
  "\<not> defined ''_PluginSolarMQTT_H__'' \<lparr>macros = Map.empty, emitted = []\<rparr> \<and>
   function_decls (emitted (plugin_h \<lparr>macros = Map.empty, emitted = []\<rparr>)) =
     [Function_decl [''CORONA_EXPORT''] C_int (luaopen_name ''plugin.solarmqtt'')
        [(C_pointer (C_named ''lua_State''), ''L'')]]"
proof -
  let ?s = "\<lparr>macros = Map.empty, emitted = []\<rparr>"
  have a: "\<not> defined ''_PluginSolarMQTT_H__'' ?s" by (simp add: defined_def)
  have e: "function_decls (emitted ?s) = []" by (simp add: function_decls_def)
  from plugin_single_entry_point [OF a] have
    f: "function_decls (emitted (plugin_h ?s)) =
          function_decls (emitted ?s) @
            [Function_decl [''CORONA_EXPORT''] C_int ''luaopen_plugin_solarmqtt''
               [(C_pointer (C_named ''lua_State''), ''L'')]]"
    and n: "luaopen_name ''plugin.solarmqtt'' = ''luaopen_plugin_solarmqtt''"
    by blast+
  show ?thesis unfolding f n e using a by simp
qed

text \<open>
  C4: when \<^verbatim>\<open>WIN32\<close> is defined, after config.h \<^verbatim>\<open>strcasecmp\<close> is replaced by \<^verbatim>\<open>_stricmp\<close>,
  \<^verbatim>\<open>strncasecmp\<close> by \<^verbatim>\<open>_strnicmp\<close>, \<^verbatim>\<open>strtok_r\<close> by \<^verbatim>\<open>strtok_s\<close>, and a call
  \<^verbatim>\<open>strerror_r(e, b, l)\<close> by \<^verbatim>\<open>strerror_s(b, l, e)\<close>, the error argument last. When
  \<^verbatim>\<open>WIN32\<close> is not defined the four names are left as they were.
\<close>

theorem win32_string_renames:
  assumes "\<not> defined ''CONFIG_H'' s" and "if_identifier s ''_MSC_VER'' = Inr v"
  shows "\<exists>s'. config_h s = Inr s' \<and>
     (defined ''WIN32'' s \<longrightarrow>
        expand_object s' ''strcasecmp'' = Some [''_stricmp''] \<and>
        expand_object s' ''strncasecmp'' = Some [''_strnicmp''] \<and>
        expand_object s' ''strtok_r'' = Some [''strtok_s''] \<and>
        (\<forall>e b l. expand_call s' ''strerror_r'' [e, b, l] =
           Some ([''strerror_s'', ''(''] @ b @ ['',''] @ l @ ['',''] @ e @ ['')'']))) \<and>
     (\<not> defined ''WIN32'' s \<longrightarrow>
        (\<forall>n \<in> set [''strcasecmp'', ''strncasecmp'', ''strtok_r'', ''strerror_r''].
           macros s' n = macros s n))"
  unfolding config_h_first [OF assms]
  by (auto simp add: defined_def expand_object_def expand_call_def substitute_def
      macros_win32_compatibility frames)

theorem win32_string_renames_witness:
  "(\<exists>s'. config_h \<lparr>macros = [''WIN32'' \<mapsto> Object_like [],
                                  ''_MSC_VER'' \<mapsto> Object_like [''1929'']],
                       emitted = []\<rparr> = Inr s' \<and>
      expand_object s' ''strcasecmp'' = Some [''_stricmp''] \<and>
      expand_object s' ''strncasecmp'' = Some [''_strnicmp''] \<and>
      expand_object s' ''strtok_r'' = Some [''strtok_s''] \<and>
      expand_call s' ''strerror_r'' [[''errno''], [''buf''], [''sizeof'', ''buf'']] =
        Some [''strerror_s'', ''('', ''buf'', '','', ''sizeof'', ''buf'', '','', ''errno'', '')'']) \<and>
   (\<exists>s'. config_h \<lparr>macros = Map.empty, emitted = []\<rparr> = Inr s' \<and>
      \<not> defined ''strcasecmp'' s' \<and> \<not> defined ''strncasecmp'' s' \<and>
      \<not> defined ''strtok_r'' s' \<and> \<not> defined ''strerror_r'' s')"
proof -
  let ?w = "\<lparr>macros = [''WIN32'' \<mapsto> Object_like [], ''_MSC_VER'' \<mapsto> Object_like [''1929'']],
             emitted = []\<rparr>"
  let ?u = "\<lparr>macros = Map.empty, emitted = []\<rparr>"
  have a: "\<not> defined ''CONFIG_H'' ?w" by (simp add: defined_def)
  have b: "if_identifier ?w ''_MSC_VER'' = Inr 1929"
    by (simp add: if_identifier_def integer_constant_def digit_value_def)
  have c: "defined ''WIN32'' ?w" by (simp add: defined_def)
  from win32_string_renames [OF a b] c obtain s' where w:
    "config_h ?w = Inr s'"
    "expand_object s' ''strcasecmp'' = Some [''_stricmp'']"
    "expand_object s' ''strncasecmp'' = Some [''_strnicmp'']"
    "expand_object s' ''strtok_r'' = Some [''strtok_s'']"
    "\<forall>e b l. expand_call s' ''strerror_r'' [e, b, l] =
       Some ([''strerror_s'', ''(''] @ b @ ['',''] @ l @ ['',''] @ e @ ['')''])"
    by blast
  from w(5) have
    "expand_call s' ''strerror_r'' [[''errno''], [''buf''], [''sizeof'', ''buf'']] =
       Some ([''strerror_s'', ''(''] @ [''buf''] @ ['',''] @ [''sizeof'', ''buf''] @ ['',''] @
             [''errno''] @ ['')''])"
    by blast
  with w have first: "\<exists>s'. config_h ?w = Inr s' \<and>
      expand_object s' ''strcasecmp'' = Some [''_stricmp''] \<and>
      expand_object s' ''strncasecmp'' = Some [''_strnicmp''] \<and>
      expand_object s' ''strtok_r'' = Some [''strtok_s''] \<and>
      expand_call s' ''strerror_r'' [[''errno''], [''buf''], [''sizeof'', ''buf'']] =
        Some [''strerror_s'', ''('', ''buf'', '','', ''sizeof'', ''buf'', '','', ''errno'', '')'']"
    by simp
  have a': "\<not> defined ''CONFIG_H'' ?u" by (simp add: defined_def)
  have b': "if_identifier ?u ''_MSC_VER'' = Inr 0" by (simp add: if_identifier_def)
  have c': "\<not> defined ''WIN32'' ?u" by (simp add: defined_def)
  from win32_string_renames [OF a' b'] c' obtain t' where
    "config_h ?u = Inr t'"
    "\<forall>n \<in> set [''strcasecmp'', ''strncasecmp'', ''strtok_r'', ''strerror_r''].
       macros t' n = macros ?u n"
    by blast
  then have second: "\<exists>s'. config_h ?u = Inr s' \<and>
      \<not> defined ''strcasecmp'' s' \<and> \<not> defined ''strncasecmp'' s' \<and>
      \<not> defined ''strtok_r'' s' \<and> \<not> defined ''strerror_r'' s'"
    by (simp add: defined_def)
  from first second show ?thesis by (rule conjI)
qed

text \<open>
  C5: after config.h a call \<^verbatim>\<open>uthash_malloc(sz)\<close> is replaced by \<^verbatim>\<open>mosquitto_malloc(sz)\<close>
  and a call \<^verbatim>\<open>uthash_free(ptr, sz)\<close> by \<^verbatim>\<open>mosquitto_free(ptr)\<close>: the size argument does
  not appear in the replacement.
\<close>

theorem uthash_uses_mosquitto_allocator:
  assumes "\<not> defined ''CONFIG_H'' s" and "if_identifier s ''_MSC_VER'' = Inr v"
  shows "\<exists>s'. config_h s = Inr s' \<and>
     (\<forall>sz. expand_call s' ''uthash_malloc'' [sz] =
        Some ([''mosquitto_malloc'', ''(''] @ sz @ ['')''])) \<and>
     (\<forall>ptr sz. expand_call s' ''uthash_free'' [ptr, sz] =
        Some ([''mosquitto_free'', ''(''] @ ptr @ ['')'']))"
  unfolding config_h_first [OF assms]
  by (simp add: expand_call_def substitute_def macros_uthash_overrides frames)

theorem uthash_uses_mosquitto_allocator_witness:
  "\<not> defined ''CONFIG_H'' \<lparr>macros = Map.empty, emitted = []\<rparr> \<and>
   if_identifier \<lparr>macros = Map.empty, emitted = []\<rparr> ''_MSC_VER'' = Inr 0 \<and>
   (\<exists>s'. config_h \<lparr>macros = Map.empty, emitted = []\<rparr> = Inr s' \<and>
      expand_call s' ''uthash_malloc'' [[''sizeof'', ''('', ''UT_hash_table'', '')'']] =
        Some [''mosquitto_malloc'', ''('', ''sizeof'', ''('', ''UT_hash_table'', '')'', '')''] \<and>
      expand_call s' ''uthash_free'' [[''tbl''], [''sizeof'', ''('', ''UT_hash_table'', '')'']] =
        Some [''mosquitto_free'', ''('', ''tbl'', '')''])"
proof -
  let ?s = "\<lparr>macros = Map.empty, emitted = []\<rparr>"
  have a: "\<not> defined ''CONFIG_H'' ?s" by (simp add: defined_def)
  have b: "if_identifier ?s ''_MSC_VER'' = Inr 0" by (simp add: if_identifier_def)
  from uthash_uses_mosquitto_allocator [OF a b] obtain s' where
    "config_h ?s = Inr s'"
    "\<forall>sz. expand_call s' ''uthash_malloc'' [sz] = Some ([''mosquitto_malloc'', ''(''] @ sz @ ['')''])"
    "\<forall>ptr sz. expand_call s' ''uthash_free'' [ptr, sz] =
       Some ([''mosquitto_free'', ''(''] @ ptr @ ['')''])"
    by blast
  then have "config_h ?s = Inr s' \<and>
      expand_call s' ''uthash_malloc'' [[''sizeof'', ''('', ''UT_hash_table'', '')'']] =
        Some [''mosquitto_malloc'', ''('', ''sizeof'', ''('', ''UT_hash_table'', '')'', '')''] \<and>
      expand_call s' ''uthash_free'' [[''tbl''], [''sizeof'', ''('', ''UT_hash_table'', '')'']] =
        Some [''mosquitto_free'', ''('', ''tbl'', '')'']"
    by simp
  with a b show ?thesis by blast
qed


text \<open>
  C8: config.h defines \<^verbatim>\<open>HAVE_PTHREAD_CANCEL\<close> when neither \<^verbatim>\<open>ANDROID\<close> nor \<^verbatim>\<open>WIN32\<close> is
  defined, and leaves the name as it was when one of them is. So, for a name that was
  not a macro before the header, it is defined after it if and only if neither
  \<^verbatim>\<open>ANDROID\<close> nor \<^verbatim>\<open>WIN32\<close> is defined.
\<close>

theorem have_pthread_cancel_iff:
  assumes "\<not> defined ''CONFIG_H'' s" and "if_identifier s ''_MSC_VER'' = Inr v"
  shows "\<exists>s'. config_h s = Inr s' \<and>
     (\<not> defined ''ANDROID'' s \<and> \<not> defined ''WIN32'' s \<longrightarrow>
        macros s' ''HAVE_PTHREAD_CANCEL'' = Some (Object_like [])) \<and>
     (defined ''ANDROID'' s \<or> defined ''WIN32'' s \<longrightarrow>
        macros s' ''HAVE_PTHREAD_CANCEL'' = macros s ''HAVE_PTHREAD_CANCEL'') \<and>
     (\<not> defined ''HAVE_PTHREAD_CANCEL'' s \<longrightarrow>
        (defined ''HAVE_PTHREAD_CANCEL'' s' \<longleftrightarrow>
           \<not> defined ''ANDROID'' s \<and> \<not> defined ''WIN32'' s))"
  unfolding config_h_first [OF assms]
  by (auto simp add: defined_def macros_misc_defines frames)

theorem have_pthread_cancel_witness:
  "(\<exists>s'. config_h \<lparr>macros = Map.empty, emitted = []\<rparr> = Inr s' \<and>
      defined ''HAVE_PTHREAD_CANCEL'' s') \<and>
   (\<exists>s'. config_h \<lparr>macros = [''ANDROID'' \<mapsto> Object_like [''1'']], emitted = []\<rparr> = Inr s' \<and>
      \<not> defined ''HAVE_PTHREAD_CANCEL'' s') \<and>
   (\<exists>s'. config_h \<lparr>macros = [''WIN32'' \<mapsto> Object_like [''1'']], emitted = []\<rparr> = Inr s' \<and>
      \<not> defined ''HAVE_PTHREAD_CANCEL'' s')"
proof -
  let ?u = "\<lparr>macros = Map.empty, emitted = []\<rparr>"
  let ?a = "\<lparr>macros = [''ANDROID'' \<mapsto> Object_like [''1'']], emitted = []\<rparr>"
  let ?w = "\<lparr>macros = [''WIN32'' \<mapsto> Object_like [''1'']], emitted = []\<rparr>"
  have u: "\<not> defined ''CONFIG_H'' ?u" "if_identifier ?u ''_MSC_VER'' = Inr 0"
    "\<not> defined ''HAVE_PTHREAD_CANCEL'' ?u" "\<not> defined ''ANDROID'' ?u" "\<not> defined ''WIN32'' ?u"
    by (simp_all add: defined_def if_identifier_def)
  have a: "\<not> defined ''CONFIG_H'' ?a" "if_identifier ?a ''_MSC_VER'' = Inr 0"
    "\<not> defined ''HAVE_PTHREAD_CANCEL'' ?a" "defined ''ANDROID'' ?a"
    by (simp_all add: defined_def if_identifier_def)
  have w: "\<not> defined ''CONFIG_H'' ?w" "if_identifier ?w ''_MSC_VER'' = Inr 0"
    "\<not> defined ''HAVE_PTHREAD_CANCEL'' ?w" "defined ''WIN32'' ?w"
    by (simp_all add: defined_def if_identifier_def)
  from have_pthread_cancel_iff [OF u(1,2)] u(3,4,5)
  have 1: "\<exists>s'. config_h ?u = Inr s' \<and> defined ''HAVE_PTHREAD_CANCEL'' s'" by blast
  from have_pthread_cancel_iff [OF a(1,2)] a(3,4)
  have 2: "\<exists>s'. config_h ?a = Inr s' \<and> \<not> defined ''HAVE_PTHREAD_CANCEL'' s'" by blast
  from have_pthread_cancel_iff [OF w(1,2)] w(3,4)
  have 3: "\<exists>s'. config_h ?w = Inr s' \<and> \<not> defined ''HAVE_PTHREAD_CANCEL'' s'" by blast
  from 1 2 3 show ?thesis by blast
qed

text \<open>
  C9: both headers are idempotent. An inclusion of config.h that succeeds leaves
  \<^verbatim>\<open>CONFIG_H\<close> defined, and including it again gives the same state: macro table and
  declarations are those of the single inclusion. The same holds for PluginSolarMQTT.h and
  \<^verbatim>\<open>_PluginSolarMQTT_H__\<close>. In any state where its guard is defined, a header changes
  nothing.
\<close>

theorem include_guards_idempotent:
  "(config_h s = Inr s' \<longrightarrow> defined ''CONFIG_H'' s' \<and> config_h s' = Inr s') \<and>
   (defined ''CONFIG_H'' u \<longrightarrow> config_h u = Inr u) \<and>
   defined ''_PluginSolarMQTT_H__'' (plugin_h t) \<and>
   plugin_h (plugin_h t) = plugin_h t \<and>
   (defined ''_PluginSolarMQTT_H__'' u \<longrightarrow> plugin_h u = u)"
proof (intro conjI impI)
  assume "config_h s = Inr s'"
  then show g: "defined ''CONFIG_H'' s'" by (rule config_h_defines_guard)
  then show "config_h s' = Inr s'" by (rule config_h_again)
next
  assume "defined ''CONFIG_H'' u"
  then show "config_h u = Inr u" by (rule config_h_again)
next
  show g: "defined ''_PluginSolarMQTT_H__'' (plugin_h t)"
    by (simp add: plugin_h_def Let_def)
  then show "plugin_h (plugin_h t) = plugin_h t"
    by (simp add: plugin_h_def [of "plugin_h t"])
next
  assume "defined ''_PluginSolarMQTT_H__'' u"
  then show "plugin_h u = u" by (simp add: plugin_h_def)
qed

theorem include_guards_idempotent_witness:
  "(\<exists>s'. config_h \<lparr>macros = Map.empty, emitted = []\<rparr> = Inr s' \<and>
      defined ''CONFIG_H'' s' \<and> config_h s' = Inr s') \<and>
   \<not> defined ''_PluginSolarMQTT_H__'' \<lparr>macros = Map.empty, emitted = []\<rparr> \<and>
   defined ''_PluginSolarMQTT_H__'' (plugin_h \<lparr>macros = Map.empty, emitted = []\<rparr>) \<and>
   plugin_h (plugin_h \<lparr>macros = Map.empty, emitted = []\<rparr>) =
     plugin_h \<lparr>macros = Map.empty, emitted = []\<rparr>"
proof -
  let ?u = "\<lparr>macros = Map.empty, emitted = []\<rparr>"
  have u: "\<not> defined ''CONFIG_H'' ?u" "if_identifier ?u ''_MSC_VER'' = Inr 0"
    "\<not> defined ''_PluginSolarMQTT_H__'' ?u"
    by (simp_all add: defined_def if_identifier_def)
  from config_h_first [OF u(1,2)] obtain s' where r: "config_h ?u = Inr s'" by blast
  from include_guards_idempotent [of ?u s' ?u ?u] r u(3) show ?thesis by blast
qed

text \<open>
  C10: when \<^verbatim>\<open>_MSC_VER\<close> is defined with a value below 1900, after config.h \<^verbatim>\<open>snprintf\<close> is
  replaced by \<^verbatim>\<open>sprintf_s\<close> and \<^verbatim>\<open>EPROTO\<close> by \<^verbatim>\<open>ECONNABORTED\<close>, and each of
  \<^verbatim>\<open>ECONNABORTED\<close>, \<^verbatim>\<open>ENOTCONN\<close> and \<^verbatim>\<open>ECONNREFUSED\<close> that was not a macro is defined as
  its Winsock code, one that was a macro keeping its definition. When \<^verbatim>\<open>_MSC_VER\<close> is not
  defined, or its value is 1900 or more, the five names are left as they were.
\<close>

theorem msvc_compatibility_block:
  assumes "\<not> defined ''CONFIG_H'' s" and "if_identifier s ''_MSC_VER'' = Inr v"
  shows "\<exists>s'. config_h s = Inr s' \<and>
     (defined ''_MSC_VER'' s \<and> v < 1900 \<longrightarrow>
        expand_object s' ''snprintf'' = Some [''sprintf_s''] \<and>
        expand_object s' ''EPROTO'' = Some [''ECONNABORTED''] \<and>
        macros s' ''ECONNABORTED'' =
          (if defined ''ECONNABORTED'' s then macros s ''ECONNABORTED''
           else Some (Object_like [''WSAECONNABORTED''])) \<and>
        macros s' ''ENOTCONN'' =
          (if defined ''ENOTCONN'' s then macros s ''ENOTCONN''
           else Some (Object_like [''WSAENOTCONN''])) \<and>
        macros s' ''ECONNREFUSED'' =
          (if defined ''ECONNREFUSED'' s then macros s ''ECONNREFUSED''
           else Some (Object_like [''WSAECONNREFUSED'']))) \<and>
     (\<not> (defined ''_MSC_VER'' s \<and> v < 1900) \<longrightarrow>
        (\<forall>n \<in> set [''snprintf'', ''EPROTO'', ''ECONNABORTED'', ''ENOTCONN'', ''ECONNREFUSED''].
           macros s' n = macros s n))"
  unfolding config_h_first [OF assms]
  by (auto simp add: defined_def expand_object_def macros_msvc_defines frames)

theorem msvc_compatibility_block_witness:
  "(\<exists>s'. config_h \<lparr>macros = [''_MSC_VER'' \<mapsto> Object_like [''1800''],
                                  ''ENOTCONN'' \<mapsto> Object_like [''126'']],
                       emitted = []\<rparr> = Inr s' \<and>
      expand_object s' ''snprintf'' = Some [''sprintf_s''] \<and>
      expand_object s' ''EPROTO'' = Some [''ECONNABORTED''] \<and>
      expand_object s' ''ECONNABORTED'' = Some [''WSAECONNABORTED''] \<and>
      expand_object s' ''ENOTCONN'' = Some [''126''] \<and>
      expand_object s' ''ECONNREFUSED'' = Some [''WSAECONNREFUSED'']) \<and>
   (\<exists>s'. config_h \<lparr>macros = [''_MSC_VER'' \<mapsto> Object_like [''1900'']], emitted = []\<rparr> = Inr s' \<and>
      \<not> defined ''snprintf'' s' \<and> \<not> defined ''EPROTO'' s' \<and> \<not> defined ''ECONNABORTED'' s' \<and>
      \<not> defined ''ENOTCONN'' s' \<and> \<not> defined ''ECONNREFUSED'' s') \<and>
   (\<exists>s'. config_h \<lparr>macros = Map.empty, emitted = []\<rparr> = Inr s' \<and>
      \<not> defined ''snprintf'' s' \<and> \<not> defined ''EPROTO'' s' \<and> \<not> defined ''ECONNABORTED'' s' \<and>
      \<not> defined ''ENOTCONN'' s' \<and> \<not> defined ''ECONNREFUSED'' s')"
proof -
  let ?o = "\<lparr>macros = [''_MSC_VER'' \<mapsto> Object_like [''1800''],
                        ''ENOTCONN'' \<mapsto> Object_like [''126'']], emitted = []\<rparr>"
  let ?n = "\<lparr>macros = [''_MSC_VER'' \<mapsto> Object_like [''1900'']], emitted = []\<rparr>"
  let ?u = "\<lparr>macros = Map.empty, emitted = []\<rparr>"
  have o: "\<not> defined ''CONFIG_H'' ?o" "if_identifier ?o ''_MSC_VER'' = Inr 1800"
    "defined ''_MSC_VER'' ?o \<and> (1800::int) < 1900"
    by (simp_all add: defined_def if_identifier_def integer_constant_def digit_value_def)
  have n: "\<not> defined ''CONFIG_H'' ?n" "if_identifier ?n ''_MSC_VER'' = Inr 1900"
    "\<not> (defined ''_MSC_VER'' ?n \<and> (1900::int) < 1900)"
    by (simp_all add: defined_def if_identifier_def integer_constant_def digit_value_def)
  have u: "\<not> defined ''CONFIG_H'' ?u" "if_identifier ?u ''_MSC_VER'' = Inr 0"
    "\<not> (defined ''_MSC_VER'' ?u \<and> (0::int) < 1900)"
    by (simp_all add: defined_def if_identifier_def)
  from msvc_compatibility_block [OF o(1,2)] o(3) obtain s' where
    "config_h ?o = Inr s'"
    "expand_object s' ''snprintf'' = Some [''sprintf_s'']"
    "expand_object s' ''EPROTO'' = Some [''ECONNABORTED'']"
    "macros s' ''ECONNABORTED'' =
       (if defined ''ECONNABORTED'' ?o then macros ?o ''ECONNABORTED''
        else Some (Object_like [''WSAECONNABORTED'']))"
    "macros s' ''ENOTCONN'' =
       (if defined ''ENOTCONN'' ?o then macros ?o ''ENOTCONN''
        else Some (Object_like [''WSAENOTCONN'']))"
    "macros s' ''ECONNREFUSED'' =
       (if defined ''ECONNREFUSED'' ?o then macros ?o ''ECONNREFUSED''
        else Some (Object_like [''WSAECONNREFUSED'']))"
    by blast
  then have 1: "\<exists>s'. config_h ?o = Inr s' \<and>
      expand_object s' ''snprintf'' = Some [''sprintf_s''] \<and>
      expand_object s' ''EPROTO'' = Some [''ECONNABORTED''] \<and>
      expand_object s' ''ECONNABORTED'' = Some [''WSAECONNABORTED''] \<and>
      expand_object s' ''ENOTCONN'' = Some [''126''] \<and>
      expand_object s' ''ECONNREFUSED'' = Some [''WSAECONNREFUSED'']"
    by (simp add: defined_def expand_object_def)
  from msvc_compatibility_block [OF n(1,2)] n(3) obtain t' where
    "config_h ?n = Inr t'"
    "\<forall>k \<in> set [''snprintf'', ''EPROTO'', ''ECONNABORTED'', ''ENOTCONN'', ''ECONNREFUSED''].
       macros t' k = macros ?n k"
    by blast
  then have 2: "\<exists>s'. config_h ?n = Inr s' \<and>
      \<not> defined ''snprintf'' s' \<and> \<not> defined ''EPROTO'' s' \<and> \<not> defined ''ECONNABORTED'' s' \<and>
      \<not> defined ''ENOTCONN'' s' \<and> \<not> defined ''ECONNREFUSED'' s'"
    by (simp add: defined_def)
  from msvc_compatibility_block [OF u(1,2)] u(3) obtain u' where
    "config_h ?u = Inr u'"
    "\<forall>k \<in> set [''snprintf'', ''EPROTO'', ''ECONNABORTED'', ''ENOTCONN'', ''ECONNREFUSED''].
       macros u' k = macros ?u k"
    by blast
  then have 3: "\<exists>s'. config_h ?u = Inr s' \<and>
      \<not> defined ''snprintf'' s' \<and> \<not> defined ''EPROTO'' s' \<and> \<not> defined ''ECONNABORTED'' s' \<and>
      \<not> defined ''ENOTCONN'' s' \<and> \<not> defined ''ECONNREFUSED'' s'"
    by (simp add: defined_def)
  from 1 2 3 show ?thesis by blast
qed

end
